theory Spec2Isabelle
  imports Main
begin

section \<open>The postgresql\_comment resource\<close>

text \<open>
  A shallow embedding of \<^verbatim>\<open>postgresql/resource_postgresql_comment.go\<close>. The Go
  functions mutate the resource data \<open>d\<close> and talk to a PostgreSQL server through a
  \<^verbatim>\<open>database/sql\<close> transaction; here both are explicit state: every function takes
  the resource data and the world (the server's committed state and the trace of driver
  calls made so far) and returns them updated, together with its Go result.
\<close>

subsection \<open>Errors\<close>

text \<open>
  Errors a collaborator hands back: \<^verbatim>\<open>sql.ErrNoRows\<close>, the sentinel the code
  compares against, and any other error of the driver or of \<^verbatim>\<open>startTransaction\<close>.
\<close>

datatype sql_error = ErrNoRows | ErrDriver string

text \<open>
  Errors the file builds with \<^verbatim>\<open>fmt.Errorf\<close>:
  \<^item> \<open>FeatureUnsupported v\<close> is
    \<^verbatim>\<open>"postgresql_comment resource is not supported for this Postgres version (%s)"\<close>
    at \<open>db.version = v\<close>;
  \<^item> \<open>UnsupportedObjectType t\<close> is \<^verbatim>\<open>"%s is not supported"\<close> at \<open>commentType = t\<close>;
  \<^item> \<open>Wrap p e\<close> is \<^verbatim>\<open>fmt.Errorf(p + ": %w", e)\<close>;
  \<^item> \<open>Sql e\<close> is a collaborator's error returned as it is.
\<close>

datatype error =
    FeatureUnsupported string
  | UnsupportedObjectType string
  | Sql sql_error
  | Wrap string error

subsection \<open>Resource data, connection, environment\<close>

text \<open>
  \<^verbatim>\<open>*schema.ResourceData\<close>: the attribute values by name, and the resource id.
  \<^verbatim>\<open>d.Get\<close> of a string attribute that holds nothing is the zero value \<^verbatim>\<open>""\<close>;
  \<^verbatim>\<open>d.GetOk\<close> also tells whether the value is not the zero value.
\<close>

record ResourceData =
  attrs :: "string \<rightharpoonup> string"
  d_Id :: string

definition d_Get :: "ResourceData \<Rightarrow> string \<Rightarrow> string" where
  "d_Get d k = (case attrs d k of None \<Rightarrow> [] | Some v \<Rightarrow> v)"

definition d_GetOk :: "ResourceData \<Rightarrow> string \<Rightarrow> string \<times> bool" where
  "d_GetOk d k = (d_Get d k, d_Get d k \<noteq> [])"

definition d_Set :: "ResourceData \<Rightarrow> string \<Rightarrow> string \<Rightarrow> ResourceData" where
  "d_Set d k v = d\<lparr>attrs := (attrs d)(k \<mapsto> v)\<rparr>"

definition d_SetId :: "ResourceData \<Rightarrow> string \<Rightarrow> ResourceData" where
  "d_SetId d v = d\<lparr>d_Id := v\<rparr>"

definition commentNameAttr :: string where "commentNameAttr = ''object_name''"
definition commentTypeAttr :: string where "commentTypeAttr = ''object_type''"
definition commentDatabaseAttr :: string where "commentDatabaseAttr = ''database''"
definition commentCommentAttr :: string where "commentCommentAttr = ''comment''"

record Client =
  databaseName :: string

record DBConnection =
  client :: Client
  version :: string

datatype featureName = featureComment

datatype event =
    Begin string
  | Exec string string
  | QueryRow string string string
  | Commit string
  | Rollback string

text \<open>
  What the file uses and does not declare, taken as parameters:
  \<^item> \<open>QuoteIdentifier\<close>, \<open>QuoteLiteral\<close>: the two functions of \<^verbatim>\<open>github.com/lib/pq\<close>;
  \<^item> \<open>extDatabaseAttr\<close>: a constant of the package, declared in another file;
  \<^item> \<open>featureTable\<close>: the package's table behind \<^verbatim>\<open>db.featureSupported\<close>, keyed
    by feature and server version;
  \<^item> the server, over its own state \<open>'s\<close>: \<open>srv_begin\<close> answers the opening of a
    transaction against a database name (the empty name is the client's default
    connection), \<open>srv_exec\<close> a statement run in a transaction (the state the
    transaction then sees, or an error), \<open>srv_commit\<close> its commit, and \<open>srv_query\<close>
    a one-row query with one argument scanned into a string.
\<close>

record 's Env =
  QuoteIdentifier :: "string \<Rightarrow> string"
  QuoteLiteral :: "string \<Rightarrow> string"
  extDatabaseAttr :: string
  featureTable :: "featureName \<Rightarrow> string \<Rightarrow> bool"
  srv_begin :: "Client \<Rightarrow> string \<Rightarrow> 's \<Rightarrow> sql_error option"
  srv_exec :: "string \<Rightarrow> string \<Rightarrow> 's \<Rightarrow> sql_error + 's"
  srv_commit :: "string \<Rightarrow> 's \<Rightarrow> sql_error option"
  srv_query :: "string \<Rightarrow> string \<Rightarrow> string \<Rightarrow> 's \<Rightarrow> sql_error + string"

record 's world =
  store :: 's
  trace :: "event list"

record 's Tx =
  tx_database :: string
  tx_state :: 's

definition emit :: "event \<Rightarrow> 's world \<Rightarrow> 's world" where
  "emit e w = w\<lparr>trace := trace w @ [e]\<rparr>"

fun is_sql :: "event \<Rightarrow> bool" where
  "is_sql (Exec _ _) = True"
| "is_sql (QueryRow _ _ _) = True"
| "is_sql _ = False"

text \<open>
  Modelled from the spec: \<^verbatim>\<open>featureSupported(featureComment)\<close> gives a boolean,
  keyed to the connected server's version. The method is declared outside this file.
\<close>

definition featureSupported :: "'s Env \<Rightarrow> DBConnection \<Rightarrow> featureName \<Rightarrow> bool" where
  "featureSupported E db name = featureTable E name (version db)"

subsection \<open>The transaction helpers\<close>

text \<open>
  Modelled from the spec: \<^verbatim>\<open>startTransaction(connectionHandle, databaseName)\<close> gives a
  transaction or an error, and \<^verbatim>\<open>deferredRollback(transaction)\<close> is a rollback that
  is safe to call after a commit. Both are functions of the package declared outside
  this file. A transaction works on its own copy of the server state; only a commit
  that succeeds installs it. The trace records every call made to the driver, in
  order, whether the call succeeds or not.
\<close>

definition startTransaction ::
  "'s Env \<Rightarrow> Client \<Rightarrow> string \<Rightarrow> 's world \<Rightarrow> (sql_error + 's Tx) \<times> 's world" where
  "startTransaction E c database w =
     (case srv_begin E c database (store w) of
        Some err \<Rightarrow> (Inl err, emit (Begin database) w)
      | None \<Rightarrow>
          (Inr \<lparr>tx_database = database, tx_state = store w\<rparr>, emit (Begin database) w))"

definition deferredRollback :: "'s Tx \<Rightarrow> 's world \<Rightarrow> 's world" where
  "deferredRollback txn w = emit (Rollback (tx_database txn)) w"

text \<open>The three methods of \<^verbatim>\<open>*sql.Tx\<close> the file calls.\<close>

definition Tx_Exec ::
  "'s Env \<Rightarrow> 's Tx \<Rightarrow> string \<Rightarrow> 's world \<Rightarrow> (sql_error + 's Tx) \<times> 's world" where
  "Tx_Exec E txn sql w =
     (case srv_exec E (tx_database txn) sql (tx_state txn) of
        Inl err \<Rightarrow> (Inl err, emit (Exec (tx_database txn) sql) w)
      | Inr s \<Rightarrow> (Inr (txn\<lparr>tx_state := s\<rparr>), emit (Exec (tx_database txn) sql) w))"

definition Tx_Commit :: "'s Env \<Rightarrow> 's Tx \<Rightarrow> 's world \<Rightarrow> sql_error option \<times> 's world" where
  "Tx_Commit E txn w =
     (case srv_commit E (tx_database txn) (tx_state txn) of
        Some err \<Rightarrow> (Some err, emit (Commit (tx_database txn)) w)
      | None \<Rightarrow> (None, (emit (Commit (tx_database txn)) w)\<lparr>store := tx_state txn\<rparr>))"

definition Tx_QueryRow_Scan ::
  "'s Env \<Rightarrow> 's Tx \<Rightarrow> string \<Rightarrow> string \<Rightarrow> 's world \<Rightarrow> (sql_error + string) \<times> 's world" where
  "Tx_QueryRow_Scan E txn query arg w =
     (srv_query E (tx_database txn) query arg (tx_state txn),
      emit (QueryRow (tx_database txn) query arg) w)"

subsection \<open>setComment\<close>

text \<open>Lines 192 to 197: the statement written into the buffer.\<close>

definition comment_sql :: "'s Env \<Rightarrow> string \<Rightarrow> string \<Rightarrow> string \<Rightarrow> string" where
  "comment_sql E commentTypeObject commentName commentValue =
     ''COMMENT ON '' @ commentTypeObject @ '' '' @ QuoteIdentifier E commentName
       @ '' IS '' @ QuoteLiteral E commentValue"

text \<open>
  Lines 186 to 206: what \<^verbatim>\<open>setComment\<close> does once the switch has chosen the
  keyword and the database. The deferred rollback runs on every exit after the
  transaction has been opened.
\<close>

definition setComment_run ::
  "'s Env \<Rightarrow> DBConnection \<Rightarrow> string \<Rightarrow> string \<Rightarrow> string \<Rightarrow> string \<Rightarrow> 's world
    \<Rightarrow> error option \<times> 's world" where
  "setComment_run E db commentTypeObject database commentName commentValue w =
     (case startTransaction E (client db) database w of
        (Inl err, w1) \<Rightarrow> (Some (Sql err), w1)
      | (Inr txn, w1) \<Rightarrow>
          (case Tx_Exec E txn (comment_sql E commentTypeObject commentName commentValue) w1 of
             (Inl err, w2) \<Rightarrow> (Some (Sql err), deferredRollback txn w2)
           | (Inr txn2, w2) \<Rightarrow>
               (case Tx_Commit E txn2 w2 of
                  (Some err, w3) \<Rightarrow>
                    (Some (Wrap ''Error creating comment'' (Sql err)), deferredRollback txn2 w3)
                | (None, w3) \<Rightarrow> (None, deferredRollback txn2 w3))))"

text \<open>
  Lines 171 to 184: the switch on the object type. It gives the SQL keyword and the
  database the transaction is opened against, or nothing for a type it does not know.
\<close>

definition setComment_switch :: "string \<Rightarrow> string \<Rightarrow> (string \<times> string) option" where
  "setComment_switch commentDatabase commentType =
     (if commentType = ''database'' then Some (''DATABASE'', [])
      else if commentType = ''role'' then Some (''ROLE'', [])
      else if commentType = ''table'' then Some (''TABLE'', commentDatabase)
      else None)"

definition setComment ::
  "'s Env \<Rightarrow> DBConnection \<Rightarrow> ResourceData \<Rightarrow> string \<Rightarrow> string \<Rightarrow> string \<Rightarrow> string
    \<Rightarrow> 's world \<Rightarrow> error option \<times> 's world" where
  "setComment E db d commentDatabase commentType commentName commentValue w =
     (case setComment_switch commentDatabase commentType of
        None \<Rightarrow> (Some (UnsupportedObjectType commentType), w)
      | Some (commentTypeObject, database) \<Rightarrow>
          setComment_run E db commentTypeObject database commentName commentValue w)"

subsection \<open>getComment\<close>

definition query_database :: string where
  "query_database = ''SELECT description FROM pg_catalog.pg_shdescription WHERE objoid = (SELECT oid FROM pg_database WHERE datname = $1);''"

definition query_role :: string where
  "query_role = ''SELECT description FROM pg_catalog.pg_shdescription WHERE objoid = (SELECT oid FROM pg_roles WHERE rolname = $1);''"

definition query_table :: string where
  "query_table = ''SELECT description FROM pg_catalog.pg_description WHERE objoid = (SELECT oid FROM pg_class WHERE relkind = 'r' and relname = $1);''"

text \<open>Lines 229 to 239: the query, the scan and the switch on its error.\<close>

definition getComment_run ::
  "'s Env \<Rightarrow> 's Tx \<Rightarrow> string \<Rightarrow> string \<Rightarrow> 's world \<Rightarrow> (error + string) \<times> 's world" where
  "getComment_run E txn query commentName w =
     (case Tx_QueryRow_Scan E txn query commentName w of
        (Inl ErrNoRows, w1) \<Rightarrow> (Inr [], deferredRollback txn w1)
      | (Inl (ErrDriver m), w1) \<Rightarrow>
          (Inl (Wrap ''Error reading extension'' (Sql (ErrDriver m))), deferredRollback txn w1)
      | (Inr description, w1) \<Rightarrow> (Inr description, deferredRollback txn w1))"

text \<open>Lines 217 to 227: the switch that chooses the lookup query.\<close>

definition getComment_switch :: "string \<Rightarrow> string option" where
  "getComment_switch commentType =
     (if commentType = ''database'' then Some query_database
      else if commentType = ''role'' then Some query_role
      else if commentType = ''table'' then Some query_table
      else None)"

definition getComment ::
  "'s Env \<Rightarrow> DBConnection \<Rightarrow> ResourceData \<Rightarrow> string \<Rightarrow> string \<Rightarrow> string \<Rightarrow> 's world
    \<Rightarrow> (error + string) \<times> 's world" where
  "getComment E db d commentDatabase commentType commentName w =
     (case startTransaction E (client db) commentDatabase w of
        (Inl err, w1) \<Rightarrow> (Inl (Sql err), w1)
      | (Inr txn, w1) \<Rightarrow>
          (case getComment_switch commentType of
             None \<Rightarrow> (Inl (UnsupportedObjectType commentType), deferredRollback txn w1)
           | Some query \<Rightarrow> getComment_run E txn query commentName w1))"

subsection \<open>The lifecycle operations\<close>

definition getDatabaseForComment :: "'s Env \<Rightarrow> ResourceData \<Rightarrow> string \<Rightarrow> string" where
  "getDatabaseForComment E d dbName =
     (case d_GetOk d (extDatabaseAttr E) of (v, ok) \<Rightarrow> if ok then v else dbName)"

definition generateCommentID :: "ResourceData \<Rightarrow> string \<Rightarrow> string" where
  "generateCommentID d dbName = dbName @ ''.'' @ d_Get d commentNameAttr"

definition resourcePostgreSQLCommentReadImpl ::
  "'s Env \<Rightarrow> DBConnection \<Rightarrow> ResourceData \<Rightarrow> 's world
    \<Rightarrow> error option \<times> ResourceData \<times> 's world" where
  "resourcePostgreSQLCommentReadImpl E db d w =
     (let database = getDatabaseForComment E d (databaseName (client db));
          commentName = d_Get d commentNameAttr;
          commentType = d_Get d commentTypeAttr;
          commentDatabase = d_Get d commentDatabaseAttr
      in case getComment E db d commentDatabase commentType commentName w of
           (Inl err, w1) \<Rightarrow> (Some err, d, w1)
         | (Inr description, w1) \<Rightarrow>
             (let d1 = d_Set d commentNameAttr (d_Get d commentNameAttr);
                  d2 = d_Set d1 commentTypeAttr (d_Get d1 commentTypeAttr);
                  d3 = d_Set d2 commentCommentAttr description;
                  resourceId = generateCommentID d3 database
              in (None, d_SetId d3 resourceId, w1)))"

definition resourcePostgreSQLCommentCreate ::
  "'s Env \<Rightarrow> DBConnection \<Rightarrow> ResourceData \<Rightarrow> 's world
    \<Rightarrow> error option \<times> ResourceData \<times> 's world" where
  "resourcePostgreSQLCommentCreate E db d w =
     (if \<not> featureSupported E db featureComment then
        (Some (FeatureUnsupported (version db)), d, w)
      else
        (case setComment E db d (d_Get d commentDatabaseAttr) (d_Get d commentTypeAttr)
                (d_Get d commentNameAttr) (d_Get d commentCommentAttr) w of
           (Some err, w1) \<Rightarrow> (Some (Wrap ''Error creating comment'' err), d, w1)
         | (None, w1) \<Rightarrow> resourcePostgreSQLCommentReadImpl E db d w1))"

definition resourcePostgreSQLCommentExists ::
  "'s Env \<Rightarrow> DBConnection \<Rightarrow> ResourceData \<Rightarrow> 's world \<Rightarrow> (error + bool) \<times> 's world" where
  "resourcePostgreSQLCommentExists E db d w =
     (let commentName = d_Get d commentNameAttr;
          commentType = d_Get d commentTypeAttr;
          commentDatabase = d_Get d commentDatabaseAttr
      in case getComment E db d commentDatabase commentType commentName w of
           (Inl err, w1) \<Rightarrow> (Inl err, w1)
         | (Inr description, w1) \<Rightarrow>
             (if description \<noteq> d_Get d commentCommentAttr then (Inr False, w1)
              else (Inr True, w1)))"

definition resourcePostgreSQLCommentRead ::
  "'s Env \<Rightarrow> DBConnection \<Rightarrow> ResourceData \<Rightarrow> 's world
    \<Rightarrow> error option \<times> ResourceData \<times> 's world" where
  "resourcePostgreSQLCommentRead E db d w =
     (if \<not> featureSupported E db featureComment then
        (Some (FeatureUnsupported (version db)), d, w)
      else resourcePostgreSQLCommentReadImpl E db d w)"

text \<open>
  Lines 136 to 149 of \<^verbatim>\<open>resourcePostgreSQLCommentDelete\<close>: the statements that
  follow its first \<^verbatim>\<open>return nil\<close>.
\<close>

definition resourcePostgreSQLCommentDelete_rest ::
  "'s Env \<Rightarrow> DBConnection \<Rightarrow> ResourceData \<Rightarrow> 's world
    \<Rightarrow> error option \<times> ResourceData \<times> 's world" where
  "resourcePostgreSQLCommentDelete_rest E db d w =
     (if \<not> featureSupported E db featureComment then
        (Some (FeatureUnsupported (version db)), d, w)
      else
        (case setComment E db d (d_Get d commentDatabaseAttr) (d_Get d commentTypeAttr)
                (d_Get d commentNameAttr) [] w of
           (Some err, w1) \<Rightarrow> (Some (Wrap ''Error deleting comment'' err), d, w1)
         | (None, w1) \<Rightarrow> (None, d_SetId d [], w1)))"

text \<open>
  A Go \<^verbatim>\<open>return\<close> ends the function: of a \<^verbatim>\<open>return\<close> followed by more
  statements, the result is the value returned, whatever the statements after it
  would do.
\<close>

definition return_then :: "'a \<Rightarrow> 'a \<Rightarrow> 'a" where
  "return_then r rest = r"

definition resourcePostgreSQLCommentDelete ::
  "'s Env \<Rightarrow> DBConnection \<Rightarrow> ResourceData \<Rightarrow> 's world
    \<Rightarrow> error option \<times> ResourceData \<times> 's world" where
  "resourcePostgreSQLCommentDelete E db d w =
     return_then (None, d, w) (resourcePostgreSQLCommentDelete_rest E db d w)"

definition resourcePostgreSQLCommentUpdate ::
  "'s Env \<Rightarrow> DBConnection \<Rightarrow> ResourceData \<Rightarrow> 's world
    \<Rightarrow> error option \<times> ResourceData \<times> 's world" where
  "resourcePostgreSQLCommentUpdate E db d w =
     (if \<not> featureSupported E db featureComment then
        (Some (FeatureUnsupported (version db)), d, w)
      else
        (case setComment E db d (d_Get d commentDatabaseAttr) (d_Get d commentTypeAttr)
                (d_Get d commentNameAttr) (d_Get d commentCommentAttr) w of
           (Some err, w1) \<Rightarrow> (Some (Wrap ''Error updating comment'' err), d, w1)
         | (None, w1) \<Rightarrow> resourcePostgreSQLCommentReadImpl E db d w1))"

subsection \<open>Observations on a run\<close>

text \<open>The driver calls a run has added to the trace, and the database each was made on.\<close>

definition new_events :: "'s world \<Rightarrow> 's world \<Rightarrow> event list" where
  "new_events w w' = drop (length (trace w)) (trace w')"

fun event_database :: "event \<Rightarrow> string" where
  "event_database (Begin database) = database"
| "event_database (Exec database _) = database"
| "event_database (QueryRow database _ _) = database"
| "event_database (Commit database) = database"
| "event_database (Rollback database) = database"

text \<open>Whether an error is the feature error, also when wrapped (\<^verbatim>\<open>errors.Is\<close>).\<close>

fun is_FeatureUnsupported :: "error \<Rightarrow> bool" where
  "is_FeatureUnsupported (FeatureUnsupported _) = True"
| "is_FeatureUnsupported (Wrap _ e) = is_FeatureUnsupported e"
| "is_FeatureUnsupported _ = False"

subsection \<open>An environment for the examples\<close>

text \<open>
  The two quoting functions as \<^verbatim>\<open>lib/pq\<close> documents them: an identifier is cut at
  its first NUL byte, its double quotes are doubled and it is put in double quotes; in
  a literal the single quotes are doubled, and a literal with a backslash has its
  backslashes doubled and is written as \<^verbatim>\<open> E'...'\<close>.
\<close>

definition double_char :: "char \<Rightarrow> string \<Rightarrow> string" where
  "double_char q s = concat (map (\<lambda>c. if c = q then [c, c] else [c]) s)"

definition pq_QuoteIdentifier :: "string \<Rightarrow> string" where
  "pq_QuoteIdentifier name =
     [CHR 0x22] @ double_char (CHR 0x22) (takeWhile (\<lambda>c. c \<noteq> CHR 0x00) name) @ [CHR 0x22]"

definition pq_QuoteLiteral :: "string \<Rightarrow> string" where
  "pq_QuoteLiteral literal =
     (let l = double_char (CHR 0x27) literal
      in if CHR 0x5C \<in> set l
         then [CHR 0x20, CHR ''E'', CHR 0x27] @ double_char (CHR 0x5C) l @ [CHR 0x27]
         else [CHR 0x27] @ l @ [CHR 0x27])"

text \<open>
  A small server. Its state is the list of the statements committed so far, the latest
  first. It answers one of the three lookups for a name from the latest
  \<^verbatim>\<open>COMMENT ON\<close> statement on that object, reading the literal back; an object
  never commented on, or commented with the empty string, has no row. It knows the
  client's own database and \<^verbatim>\<open>my_database\<close>.
\<close>

fun undouble :: "string \<Rightarrow> string" where
  "undouble (a # b # r) =
     (if a = b \<and> (a = CHR 0x27 \<or> a = CHR 0x5C) then a # undouble r
      else a # undouble (b # r))"
| "undouble r = r"

definition literal_value :: "string \<Rightarrow> string" where
  "literal_value lit =
     (if take 3 lit = [CHR 0x20, CHR ''E'', CHR 0x27] then undouble (butlast (drop 3 lit))
      else undouble (butlast (drop 1 lit)))"

definition query_keyword :: "string \<Rightarrow> string option" where
  "query_keyword query =
     (if query = query_database then Some ''DATABASE''
      else if query = query_role then Some ''ROLE''
      else if query = query_table then Some ''TABLE''
      else None)"

fun latest_comment :: "string \<Rightarrow> string list \<Rightarrow> string option" where
  "latest_comment p [] = None"
| "latest_comment p (sql # log) =
     (if take (length p) sql = p then Some (literal_value (drop (length p) sql))
      else latest_comment p log)"

definition demo_query ::
  "string \<Rightarrow> string \<Rightarrow> string \<Rightarrow> string list \<Rightarrow> sql_error + string" where
  "demo_query database query arg log =
     (case query_keyword query of
        None \<Rightarrow> Inl (ErrDriver ''syntax error'')
      | Some kw \<Rightarrow>
          (case latest_comment
                  (''COMMENT ON '' @ kw @ '' '' @ pq_QuoteIdentifier arg @ '' IS '') log of
             None \<Rightarrow> Inl ErrNoRows
           | Some v \<Rightarrow> if v = [] then Inl ErrNoRows else Inr v))"

definition demo_begin :: "Client \<Rightarrow> string \<Rightarrow> string list \<Rightarrow> sql_error option" where
  "demo_begin c database log =
     (if database = [] \<or> database = databaseName c \<or> database = ''my_database'' then None
      else Some (ErrDriver ''database does not exist''))"

text \<open>The feature table of the example: every version but \<^verbatim>\<open>8.0.0\<close> has comments.\<close>

definition demo :: "string list Env" where
  "demo = \<lparr>QuoteIdentifier = pq_QuoteIdentifier, QuoteLiteral = pq_QuoteLiteral,
           extDatabaseAttr = ''database'',
           featureTable = (\<lambda>f v. v \<noteq> ''8.0.0''),
           srv_begin = demo_begin,
           srv_exec = (\<lambda>database sql log. Inr (sql # log)),
           srv_commit = (\<lambda>database log. None),
           srv_query = demo_query\<rparr>"

definition db13 :: DBConnection where
  "db13 = \<lparr>client = \<lparr>databaseName = ''postgres''\<rparr>, version = ''13.0.0''\<rparr>"

definition db8 :: DBConnection where
  "db8 = \<lparr>client = \<lparr>databaseName = ''postgres''\<rparr>, version = ''8.0.0''\<rparr>"

text \<open>A declared resource: database, object type, object name, comment.\<close>

definition declared :: "string \<Rightarrow> string \<Rightarrow> string \<Rightarrow> string \<Rightarrow> ResourceData" where
  "declared database ty name comment =
     \<lparr>attrs = [commentDatabaseAttr \<mapsto> database, commentTypeAttr \<mapsto> ty,
               commentNameAttr \<mapsto> name, commentCommentAttr \<mapsto> comment],
      d_Id = []\<rparr>"

definition fresh :: "string list world" where
  "fresh = \<lparr>store = [], trace = []\<rparr>"

subsection \<open>The server's side of a comment\<close>

text \<open>
  What a lookup answers when the stored comment is \<open>v\<close>: the row holding \<open>v\<close>,
  or no row when \<open>v\<close> is empty.
\<close>

definition lookup_gives :: "string \<Rightarrow> sql_error + string \<Rightarrow> bool" where
  "lookup_gives v r \<longleftrightarrow> r = Inr v \<or> (v = [] \<and> r = Inl ErrNoRows)"

text \<open>
  The server keeps the comment \<open>v\<close> on the object of type \<open>T\<close> named \<open>n\<close>:
  in whatever state the statement of \<^verbatim>\<open>setComment\<close> for it is executed, on the
  database \<^verbatim>\<open>setComment\<close> chooses, the lookup of \<^verbatim>\<open>getComment\<close> for the object,
  made on the database \<open>cd\<close>, answers \<open>v\<close> in the state the statement leaves.
\<close>

definition keeps_comment :: "'s Env \<Rightarrow> string \<Rightarrow> string \<Rightarrow> string \<Rightarrow> string \<Rightarrow> bool" where
  "keeps_comment E cd T n v \<longleftrightarrow>
     (\<forall>kw database q s s'.
        setComment_switch cd T = Some (kw, database) \<longrightarrow>
        getComment_switch T = Some q \<longrightarrow>
        srv_exec E database (comment_sql E kw n v) s = Inr s' \<longrightarrow>
        lookup_gives v (srv_query E cd q n s'))"

subsection \<open>Example runs\<close>

definition role_comment :: ResourceData where
  "role_comment = declared ''postgres'' ''role'' ''demo'' ''my role comment''"

definition updated_once :: "error option \<times> ResourceData \<times> string list world" where
  "updated_once = resourcePostgreSQLCommentUpdate demo db13 role_comment fresh"

definition updated_twice :: "error option \<times> ResourceData \<times> string list world" where
  "updated_twice =
     resourcePostgreSQLCommentUpdate demo db13
       (d_Set (fst (snd updated_once)) commentCommentAttr ''my role comment'')
       (snd (snd updated_once))"

definition database_comment :: ResourceData where
  "database_comment = declared ''postgres'' ''database'' ''my_database'' ''my database comment''"

definition created :: "error option \<times> ResourceData \<times> string list world" where
  "created = resourcePostgreSQLCommentCreate demo db13 database_comment fresh"

section \<open>Lemmas\<close>

subsection \<open>Traces, results and stores\<close>

lemma setComment_run_trace:
  "trace (snd (setComment_run E db kw database n v w)) = trace w @
     (case srv_begin E (client db) database (store w) of
        Some e \<Rightarrow> [Begin database]
      | None \<Rightarrow>
          (case srv_exec E database (comment_sql E kw n v) (store w) of
             Inl e \<Rightarrow> [Begin database, Exec database (comment_sql E kw n v), Rollback database]
           | Inr s \<Rightarrow> [Begin database, Exec database (comment_sql E kw n v), Commit database,
                        Rollback database]))"
  by (simp add: setComment_run_def startTransaction_def Tx_Exec_def Tx_Commit_def
      deferredRollback_def emit_def split: option.splits sum.splits)

lemma getComment_run_trace:
  "trace (snd (getComment_run E txn q n w)) =
     trace w @ [QueryRow (tx_database txn) q n, Rollback (tx_database txn)]"
  by (simp add: getComment_run_def Tx_QueryRow_Scan_def deferredRollback_def emit_def
      split: sum.splits sql_error.splits)

lemma getComment_run_store: "store (snd (getComment_run E txn q n w)) = store w"
  by (simp add: getComment_run_def Tx_QueryRow_Scan_def deferredRollback_def emit_def
      split: sum.splits sql_error.splits)

lemma getComment_run_fst:
  "fst (getComment_run E txn q n w) =
     (case srv_query E (tx_database txn) q n (tx_state txn) of
        Inl ErrNoRows \<Rightarrow> Inr []
      | Inl (ErrDriver m) \<Rightarrow> Inl (Wrap ''Error reading extension'' (Sql (ErrDriver m)))
      | Inr description \<Rightarrow> Inr description)"
  by (simp add: getComment_run_def Tx_QueryRow_Scan_def split: sum.splits sql_error.splits)

lemma getComment_trace:
  "trace (snd (getComment E db d cd T n w)) = trace w @
     (case srv_begin E (client db) cd (store w) of
        Some e \<Rightarrow> [Begin cd]
      | None \<Rightarrow>
          (case getComment_switch T of
             None \<Rightarrow> [Begin cd, Rollback cd]
           | Some q \<Rightarrow> [Begin cd, QueryRow cd q n, Rollback cd]))"
  by (simp add: getComment_def startTransaction_def getComment_run_trace
      deferredRollback_def emit_def split: option.splits)

lemma getComment_store: "store (snd (getComment E db d cd T n w)) = store w"
  by (simp add: getComment_def startTransaction_def getComment_run_store
      deferredRollback_def emit_def split: option.splits)

lemma getComment_fst:
  "fst (getComment E db d cd T n w) =
     (case srv_begin E (client db) cd (store w) of
        Some e \<Rightarrow> Inl (Sql e)
      | None \<Rightarrow>
          (case getComment_switch T of
             None \<Rightarrow> Inl (UnsupportedObjectType T)
           | Some q \<Rightarrow>
               (case srv_query E cd q n (store w) of
                  Inl ErrNoRows \<Rightarrow> Inr []
                | Inl (ErrDriver m) \<Rightarrow> Inl (Wrap ''Error reading extension'' (Sql (ErrDriver m)))
                | Inr description \<Rightarrow> Inr description)))"
  by (simp add: getComment_def startTransaction_def getComment_run_fst split: option.splits)

lemma getComment_fst_store:
  assumes "store w = store w'"
  shows "fst (getComment E db d cd T n w) = fst (getComment E db d' cd T n w')"
  unfolding getComment_fst assms by (rule refl)

lemma Exists_unfold:
  "resourcePostgreSQLCommentExists E db d w =
     (case fst (getComment E db d (d_Get d commentDatabaseAttr) (d_Get d commentTypeAttr)
                  (d_Get d commentNameAttr) w) of
        Inl err \<Rightarrow> Inl err
      | Inr description \<Rightarrow> Inr (description = d_Get d commentCommentAttr),
      snd (getComment E db d (d_Get d commentDatabaseAttr) (d_Get d commentTypeAttr)
             (d_Get d commentNameAttr) w))"
  by (simp add: resourcePostgreSQLCommentExists_def Let_def split: prod.splits sum.splits)

lemma getComment_run_feature_free:
  "getComment_run (E\<lparr>featureTable := t\<rparr>) txn q n w = getComment_run E txn q n w"
  by (simp add: getComment_run_def Tx_QueryRow_Scan_def)

lemma getComment_feature_free:
  "getComment (E\<lparr>featureTable := t\<rparr>) (db\<lparr>version := ver\<rparr>) d cd T n w
     = getComment E db d cd T n w"
  by (simp add: getComment_def startTransaction_def getComment_run_feature_free
      split: option.splits)

lemma exists_error_kinds:
  "fst (getComment E db d cd T n w) = Inl e \<Longrightarrow> \<not> is_FeatureUnsupported e"
  by (auto simp: getComment_fst split: option.splits sum.splits sql_error.splits)

lemma setComment_run_ok:
  assumes "setComment_run E db kw database n v w = (None, w')"
  shows "\<exists>s'. srv_exec E database (comment_sql E kw n v) (store w) = Inr s' \<and> store w' = s'"
  using assms
  by (auto simp: setComment_run_def startTransaction_def Tx_Exec_def Tx_Commit_def
      deferredRollback_def emit_def split: option.splits sum.splits)

lemma setComment_ok:
  assumes "setComment E db d cd T n v w = (None, w')"
  shows "\<exists>kw database. setComment_switch cd T = Some (kw, database)
           \<and> srv_exec E database (comment_sql E kw n v) (store w) = Inr (store w')"
  using assms
  by (auto simp: setComment_def split: option.splits dest: setComment_run_ok)

subsection \<open>Resource data\<close>

lemma attr_names_distinct:
  "commentCommentAttr \<noteq> commentNameAttr" "commentCommentAttr \<noteq> commentTypeAttr"
  "commentCommentAttr \<noteq> commentDatabaseAttr" "commentTypeAttr \<noteq> commentNameAttr"
  "commentTypeAttr \<noteq> commentDatabaseAttr" "commentNameAttr \<noteq> commentDatabaseAttr"
  by (simp_all add: commentCommentAttr_def commentNameAttr_def commentTypeAttr_def
      commentDatabaseAttr_def)

lemma d_Get_d_Set: "d_Get (d_Set d k v) k' = (if k' = k then v else d_Get d k')"
  by (simp add: d_Get_def d_Set_def)

lemma d_Get_d_SetId: "d_Get (d_SetId d i) k = d_Get d k"
  by (simp add: d_Get_def d_SetId_def)

lemma d_Get_declared:
  "d_Get (declared cd T n v) commentDatabaseAttr = cd"
  "d_Get (declared cd T n v) commentTypeAttr = T"
  "d_Get (declared cd T n v) commentNameAttr = n"
  "d_Get (declared cd T n v) commentCommentAttr = v"
  by (simp_all add: d_Get_def declared_def commentDatabaseAttr_def commentTypeAttr_def
      commentNameAttr_def commentCommentAttr_def)

subsection \<open>Read, create and update\<close>

lemma ReadImpl_ok:
  assumes "resourcePostgreSQLCommentReadImpl E db d w = (None, d', w')"
  shows "\<exists>description.
           getComment E db d (d_Get d commentDatabaseAttr) (d_Get d commentTypeAttr)
             (d_Get d commentNameAttr) w = (Inr description, w')
         \<and> d_Get d' commentCommentAttr = description
         \<and> d_Get d' commentDatabaseAttr = d_Get d commentDatabaseAttr
         \<and> d_Get d' commentTypeAttr = d_Get d commentTypeAttr
         \<and> d_Get d' commentNameAttr = d_Get d commentNameAttr"
  using assms attr_names_distinct
  by (auto simp: resourcePostgreSQLCommentReadImpl_def Let_def d_Get_d_Set d_Get_d_SetId
      split: prod.splits sum.splits)

lemma ReadImpl_result:
  "fst (resourcePostgreSQLCommentReadImpl E db d w)
     = (case fst (getComment E db d (d_Get d commentDatabaseAttr) (d_Get d commentTypeAttr)
                    (d_Get d commentNameAttr) w) of
          Inl err \<Rightarrow> Some err | Inr description \<Rightarrow> None)"
  "store (snd (snd (resourcePostgreSQLCommentReadImpl E db d w))) = store w"
  "trace (snd (snd (resourcePostgreSQLCommentReadImpl E db d w)))
     = trace (snd (getComment E db d (d_Get d commentDatabaseAttr) (d_Get d commentTypeAttr)
                    (d_Get d commentNameAttr) w))"
  using getComment_store [of E db d "d_Get d commentDatabaseAttr" "d_Get d commentTypeAttr"
      "d_Get d commentNameAttr" w]
  by (auto simp: resourcePostgreSQLCommentReadImpl_def Let_def split: prod.splits sum.splits)

lemma ReadImpl_d:
  assumes "fst (getComment E db d (d_Get d commentDatabaseAttr) (d_Get d commentTypeAttr)
                    (d_Get d commentNameAttr) w) = Inr description"
  shows "d_Get (fst (snd (resourcePostgreSQLCommentReadImpl E db d w))) commentCommentAttr
           = description"
    and "d_Id (fst (snd (resourcePostgreSQLCommentReadImpl E db d w)))
           = getDatabaseForComment E d (databaseName (client db)) @ ''.'' @ d_Get d commentNameAttr"
proof -
  show "d_Get (fst (snd (resourcePostgreSQLCommentReadImpl E db d w))) commentCommentAttr
          = description"
    using assms
    by (auto simp: resourcePostgreSQLCommentReadImpl_def Let_def d_Get_d_Set d_Get_d_SetId
        split: prod.splits sum.splits)
  show "d_Id (fst (snd (resourcePostgreSQLCommentReadImpl E db d w)))
          = getDatabaseForComment E d (databaseName (client db)) @ ''.'' @ d_Get d commentNameAttr"
    using assms attr_names_distinct
    by (auto simp: resourcePostgreSQLCommentReadImpl_def Let_def d_Get_d_Set
        generateCommentID_def d_SetId_def d_Set_def d_Get_def split: prod.splits sum.splits)
qed

lemma Update_ok:
  assumes "resourcePostgreSQLCommentUpdate E db d w = (None, d', w')"
  shows "\<exists>wa. setComment E db d (d_Get d commentDatabaseAttr) (d_Get d commentTypeAttr)
                (d_Get d commentNameAttr) (d_Get d commentCommentAttr) w = (None, wa)
             \<and> resourcePostgreSQLCommentReadImpl E db d wa = (None, d', w')"
  using assms
  by (auto simp: resourcePostgreSQLCommentUpdate_def split: if_splits prod.splits option.splits)

lemma Create_ok:
  assumes "resourcePostgreSQLCommentCreate E db d w = (None, d', w')"
  shows "\<exists>wa. setComment E db d (d_Get d commentDatabaseAttr) (d_Get d commentTypeAttr)
                (d_Get d commentNameAttr) (d_Get d commentCommentAttr) w = (None, wa)
             \<and> resourcePostgreSQLCommentReadImpl E db d wa = (None, d', w')"
  using assms
  by (auto simp: resourcePostgreSQLCommentCreate_def split: if_splits prod.splits option.splits)

lemma getComment_kept:
  assumes k: "keeps_comment E cd T n v"
    and sw: "setComment_switch cd T = Some (kw, database)"
    and ex: "srv_exec E database (comment_sql E kw n v) s = Inr (store w)"
    and ok: "fst (getComment E db d cd T n w) = Inr description"
  shows "description = v"
proof -
  from ok obtain q where q: "getComment_switch T = Some q"
    by (auto simp: getComment_fst split: option.splits)
  from k sw q ex have "lookup_gives v (srv_query E cd q n (store w))"
    unfolding keeps_comment_def by blast
  with ok q show ?thesis
    by (auto simp: getComment_fst lookup_gives_def split: option.splits)
qed

lemma Update_keeps:
  assumes u: "resourcePostgreSQLCommentUpdate E db d w = (None, d', w')"
    and k: "keeps_comment E (d_Get d commentDatabaseAttr) (d_Get d commentTypeAttr)
              (d_Get d commentNameAttr) (d_Get d commentCommentAttr)"
  shows "fst (getComment E db d0 (d_Get d commentDatabaseAttr) (d_Get d commentTypeAttr)
                (d_Get d commentNameAttr) w') = Inr (d_Get d commentCommentAttr)"
    and "d_Get d' commentCommentAttr = d_Get d commentCommentAttr"
    and "d_Get d' commentDatabaseAttr = d_Get d commentDatabaseAttr"
    and "d_Get d' commentTypeAttr = d_Get d commentTypeAttr"
    and "d_Get d' commentNameAttr = d_Get d commentNameAttr"
proof -
  let ?cd = "d_Get d commentDatabaseAttr" and ?T = "d_Get d commentTypeAttr"
  let ?n = "d_Get d commentNameAttr" and ?v = "d_Get d commentCommentAttr"
  from Update_ok [OF u] obtain wa where
    s: "setComment E db d ?cd ?T ?n ?v w = (None, wa)"
    and r: "resourcePostgreSQLCommentReadImpl E db d wa = (None, d', w')"
    by blast
  from setComment_ok [OF s] obtain kw database where
    sw: "setComment_switch ?cd ?T = Some (kw, database)"
    and ex: "srv_exec E database (comment_sql E kw ?n ?v) (store w) = Inr (store wa)"
    by blast
  from ReadImpl_ok [OF r] obtain description where
    g: "getComment E db d ?cd ?T ?n wa = (Inr description, w')"
    and c: "d_Get d' commentCommentAttr = description"
    and rest: "d_Get d' commentDatabaseAttr = ?cd" "d_Get d' commentTypeAttr = ?T"
      "d_Get d' commentNameAttr = ?n"
    by blast
  from g have gf: "fst (getComment E db d ?cd ?T ?n wa) = Inr description"
    by simp
  have dv: "description = ?v"
    by (rule getComment_kept [OF k sw ex gf])
  from g have "store w' = store wa"
    using getComment_store [of E db d ?cd ?T ?n wa] by simp
  then have "fst (getComment E db d0 ?cd ?T ?n w') = fst (getComment E db d ?cd ?T ?n wa)"
    by (rule getComment_fst_store)
  with gf dv show "fst (getComment E db d0 ?cd ?T ?n w') = Inr ?v"
    by simp
  from c dv show "d_Get d' commentCommentAttr = ?v"
    by simp
  from rest show "d_Get d' commentDatabaseAttr = ?cd" "d_Get d' commentTypeAttr = ?T"
    "d_Get d' commentNameAttr = ?n"
    by simp_all
qed

subsection \<open>The example environment\<close>

lemma demo_fields:
  "QuoteIdentifier demo = pq_QuoteIdentifier"
  "QuoteLiteral demo = pq_QuoteLiteral"
  "extDatabaseAttr demo = ''database''"
  "srv_begin demo = demo_begin"
  "srv_exec demo = (\<lambda>database sql log. Inr (sql # log))"
  "srv_commit demo = (\<lambda>database log. None)"
  "srv_query demo = demo_query"
  by (simp_all add: demo_def)

lemma demo_feature:
  "featureSupported demo db13 featureComment"
  "\<not> featureSupported demo db8 featureComment"
  by (simp_all add: featureSupported_def demo_def db13_def db8_def)

lemma demo_begin_ok:
  "demo_begin (client db13) [] s = None"
  "demo_begin (client db13) ''postgres'' s = None"
  "demo_begin (client db13) ''my_database'' s = None"
  "demo_begin (client db8) ''postgres'' s = None"
  by (simp_all add: demo_begin_def db13_def db8_def)

lemma demo_begin_missing:
  "demo_begin (client db13) ''missing'' s = Some (ErrDriver ''database does not exist'')"
  by (simp add: demo_begin_def db13_def)

lemma query_keyword_simps:
  "query_keyword query_database = Some ''DATABASE''"
  "query_keyword query_role = Some ''ROLE''"
  "query_keyword query_table = Some ''TABLE''"
  by (simp_all add: query_keyword_def query_database_def query_role_def query_table_def)

lemma getComment_switch_simps:
  "getComment_switch ''database'' = Some query_database"
  "getComment_switch ''role'' = Some query_role"
  "getComment_switch ''table'' = Some query_table"
  "getComment_switch ''schema'' = None"
  by (simp_all add: getComment_switch_def)

lemma setComment_switch_simps:
  "setComment_switch cd ''database'' = Some (''DATABASE'', [])"
  "setComment_switch cd ''role'' = Some (''ROLE'', [])"
  "setComment_switch cd ''table'' = Some (''TABLE'', cd)"
  by (simp_all add: setComment_switch_def)

lemma demo_query_fresh: "demo_query cd q n [] = (case query_keyword q of None \<Rightarrow> Inl (ErrDriver ''syntax error'') | Some kw \<Rightarrow> Inl ErrNoRows)"
  by (simp add: demo_query_def split: option.splits)

lemma store_fresh: "store fresh = []" "trace fresh = []"
  by (simp_all add: fresh_def)

lemma getDatabaseForComment_demo:
  "getDatabaseForComment demo (declared cd T n v) dbn = (if cd = [] then dbn else cd)"
  by (simp add: getDatabaseForComment_def d_GetOk_def demo_fields d_Get_def declared_def
      commentDatabaseAttr_def commentTypeAttr_def commentNameAttr_def commentCommentAttr_def)

text \<open>A literal written by \<open>pq_QuoteLiteral\<close> is read back by the example server.\<close>

lemma double_char_Nil [simp]: "double_char q [] = []"
  by (simp add: double_char_def)

lemma double_char_Cons [simp]:
  "double_char q (c # s) = (if c = q then c # c # double_char q s else c # double_char q s)"
  by (simp add: double_char_def)

lemma double_char_absent: "q \<notin> set s \<Longrightarrow> double_char q s = s"
  by (induction s) auto

lemma undouble_plain:
  "c \<noteq> CHR 0x27 \<Longrightarrow> c \<noteq> CHR 0x5C \<Longrightarrow> undouble (c # r) = c # undouble r"
  by (cases r) auto

lemma undouble_double: "undouble (double_char (CHR 0x5C) (double_char (CHR 0x27) v)) = v"
  by (induction v) (auto simp: undouble_plain)

lemma literal_value_QuoteLiteral: "literal_value (pq_QuoteLiteral v) = v"
proof (cases "CHR 0x5C \<in> set (double_char (CHR 0x27) v)")
  case True
  then show ?thesis
    by (simp add: literal_value_def pq_QuoteLiteral_def Let_def undouble_double)
next
  case False
  then have "undouble (double_char (CHR 0x27) v) = v"
    using undouble_double [of v] by (simp add: double_char_absent)
  with False show ?thesis
    by (simp add: literal_value_def pq_QuoteLiteral_def Let_def)
qed

lemma latest_comment_head: "latest_comment p ((p @ lit) # log) = Some (literal_value lit)"
  by simp

lemma demo_query_after:
  assumes "query_keyword q = Some kw"
  shows "demo_query cd q n (comment_sql demo kw n v # log)
           = (if v = [] then Inl ErrNoRows else Inr v)"
proof -
  have sql: "comment_sql demo kw n v
               = (''COMMENT ON '' @ kw @ '' '' @ pq_QuoteIdentifier n @ '' IS '') @ pq_QuoteLiteral v"
    by (simp add: comment_sql_def demo_fields)
  have "latest_comment (''COMMENT ON '' @ kw @ '' '' @ pq_QuoteIdentifier n @ '' IS '')
          (comment_sql demo kw n v # log) = Some v"
    unfolding sql by (simp only: latest_comment_head literal_value_QuoteLiteral)
  then show ?thesis
    by (simp only: demo_query_def assms option.case)
qed

lemma switches_agree:
  assumes "setComment_switch cd T = Some (kw, database)" and "getComment_switch T = Some q"
  shows "query_keyword q = Some kw"
  using assms
  by (auto simp: setComment_switch_def getComment_switch_def query_keyword_simps
      split: if_splits)

lemma demo_keeps_comment: "keeps_comment demo cd T n v"
  unfolding keeps_comment_def
proof (intro allI impI)
  fix kw database q s s'
  assume sw: "setComment_switch cd T = Some (kw, database)"
    and q: "getComment_switch T = Some q"
    and ex: "srv_exec demo database (comment_sql demo kw n v) s = Inr s'"
  from ex have s': "s' = comment_sql demo kw n v # s"
    by (auto simp: demo_fields)
  show "lookup_gives v (srv_query demo cd q n s')"
    unfolding s' demo_fields lookup_gives_def
    by (simp add: demo_query_after [OF switches_agree [OF sw q]])
qed

lemma setComment_run_demo:
  assumes "demo_begin (client db) database (store w) = None"
  shows "fst (setComment_run demo db kw database n v w) = None"
    and "store (snd (setComment_run demo db kw database n v w)) = comment_sql demo kw n v # store w"
  using assms
  by (simp_all add: setComment_run_def startTransaction_def Tx_Exec_def Tx_Commit_def
      deferredRollback_def emit_def demo_fields)

lemma demo_set_then_read:
  assumes sw: "setComment_switch (d_Get d commentDatabaseAttr) (d_Get d commentTypeAttr)
                 = Some (kw, database)"
    and b1: "\<And>s. demo_begin (client db) database s = None"
    and b2: "\<And>s. demo_begin (client db) (d_Get d commentDatabaseAttr) s = None"
    and s: "setComment demo db d (d_Get d commentDatabaseAttr) (d_Get d commentTypeAttr)
              (d_Get d commentNameAttr) v w = (r, w1)"
  shows "r = None"
    and "store w1 = comment_sql demo kw (d_Get d commentNameAttr) v # store w"
    and "fst (getComment demo db d' (d_Get d commentDatabaseAttr) (d_Get d commentTypeAttr)
                (d_Get d commentNameAttr) w1) = Inr v"
proof -
  let ?n = "d_Get d commentNameAttr"
  have run: "setComment_run demo db kw database ?n v w = (r, w1)"
    using s sw by (simp add: setComment_def)
  show r: "r = None"
    using setComment_run_demo(1) [OF b1, where kw = kw and w = w and n = ?n and v = v] run by simp
  show st: "store w1 = comment_sql demo kw ?n v # store w"
    using setComment_run_demo(2) [OF b1, where kw = kw and w = w and n = ?n and v = v] run by simp
  obtain q where q: "getComment_switch (d_Get d commentTypeAttr) = Some q"
    using sw by (auto simp: setComment_switch_def getComment_switch_def split: if_splits)
  have "demo_query (d_Get d commentDatabaseAttr) q ?n (store w1)
          = (if v = [] then Inl ErrNoRows else Inr v)"
    unfolding st by (rule demo_query_after [OF switches_agree [OF sw q]])
  then show "fst (getComment demo db d' (d_Get d commentDatabaseAttr) (d_Get d commentTypeAttr)
                ?n w1) = Inr v"
    by (simp add: getComment_fst demo_fields b2 q)
qed

lemma demo_Update:
  assumes sw: "setComment_switch (d_Get d commentDatabaseAttr) (d_Get d commentTypeAttr)
                 = Some (kw, database)"
    and b1: "\<And>s. demo_begin (client db) database s = None"
    and b2: "\<And>s. demo_begin (client db) (d_Get d commentDatabaseAttr) s = None"
    and f: "featureSupported demo db featureComment"
  shows "fst (resourcePostgreSQLCommentUpdate demo db d w) = None"
    and "fst (resourcePostgreSQLCommentCreate demo db d w) = None"
    and "store (snd (snd (resourcePostgreSQLCommentCreate demo db d w)))
           = comment_sql demo kw (d_Get d commentNameAttr) (d_Get d commentCommentAttr) # store w"
    and "d_Id (fst (snd (resourcePostgreSQLCommentCreate demo db d w)))
           = getDatabaseForComment demo d (databaseName (client db)) @ ''.''
               @ d_Get d commentNameAttr"
proof -
  obtain r w1 where s: "setComment demo db d (d_Get d commentDatabaseAttr)
      (d_Get d commentTypeAttr) (d_Get d commentNameAttr) (d_Get d commentCommentAttr) w = (r, w1)"
    by (cases "setComment demo db d (d_Get d commentDatabaseAttr)
      (d_Get d commentTypeAttr) (d_Get d commentNameAttr) (d_Get d commentCommentAttr) w")
  note str = demo_set_then_read [OF sw b1 b2 s]
  show "fst (resourcePostgreSQLCommentUpdate demo db d w) = None"
    using f s str(1) str(3) [of d]
    by (simp add: resourcePostgreSQLCommentUpdate_def ReadImpl_result)
  show "fst (resourcePostgreSQLCommentCreate demo db d w) = None"
    using f s str(1) str(3) [of d]
    by (simp add: resourcePostgreSQLCommentCreate_def ReadImpl_result)
  show "store (snd (snd (resourcePostgreSQLCommentCreate demo db d w)))
           = comment_sql demo kw (d_Get d commentNameAttr) (d_Get d commentCommentAttr) # store w"
    using f s str(1) str(2)
    by (simp add: resourcePostgreSQLCommentCreate_def ReadImpl_result)
  show "d_Id (fst (snd (resourcePostgreSQLCommentCreate demo db d w)))
           = getDatabaseForComment demo d (databaseName (client db)) @ ''.''
               @ d_Get d commentNameAttr"
    using f s str(1) ReadImpl_d(2) [OF str(3) [of d]]
    by (simp add: resourcePostgreSQLCommentCreate_def)
qed

subsection \<open>The example runs\<close>

lemma updated_once_ok: "updated_once = (None, fst (snd updated_once), snd (snd updated_once))"
proof -
  have "fst updated_once = None"
    unfolding updated_once_def role_comment_def
    by (rule demo_Update(1) [where kw = "''ROLE''" and database = "[]"])
      (simp_all add: d_Get_declared setComment_switch_simps demo_begin_ok demo_feature)
  then show ?thesis
    by (metis prod.collapse)
qed

lemma updated_once_d:
  "d_Get (fst (snd updated_once)) commentDatabaseAttr = ''postgres''"
  "d_Get (fst (snd updated_once)) commentTypeAttr = ''role''"
  "d_Get (fst (snd updated_once)) commentNameAttr = ''demo''"
  using Update_keeps(3-5) [OF updated_once_ok [unfolded updated_once_def] demo_keeps_comment]
  by (simp_all add: updated_once_def role_comment_def d_Get_declared)

lemma updated_twice_ok:
  "updated_twice = (None, fst (snd updated_twice), snd (snd updated_twice))"
proof -
  have "fst updated_twice = None"
    unfolding updated_twice_def
    by (rule demo_Update(1) [where kw = "''ROLE''" and database = "[]"])
      (simp_all add: d_Get_d_Set attr_names_distinct attr_names_distinct [symmetric]
        updated_once_d setComment_switch_simps demo_begin_ok demo_feature)
  then show ?thesis
    by (metis prod.collapse)
qed

lemma created_ok: "created = (None, fst (snd created), snd (snd created))"
proof -
  have "fst created = None"
    unfolding created_def database_comment_def
    by (rule demo_Update(2) [where kw = "''DATABASE''" and database = "[]"])
      (simp_all add: d_Get_declared setComment_switch_simps demo_begin_ok demo_feature)
  then show ?thesis
    by (metis prod.collapse)
qed

lemma created_d:
  "d_Get (fst (snd created)) commentDatabaseAttr = ''postgres''"
  "d_Get (fst (snd created)) commentTypeAttr = ''database''"
  "d_Get (fst (snd created)) commentNameAttr = ''my_database''"
proof -
  from Create_ok [OF created_ok [unfolded created_def]] obtain wa where
    "resourcePostgreSQLCommentReadImpl demo db13 database_comment wa
       = (None, fst (snd (resourcePostgreSQLCommentCreate demo db13 database_comment fresh)),
          snd (snd (resourcePostgreSQLCommentCreate demo db13 database_comment fresh)))"
    by blast
  from ReadImpl_ok [OF this]
  show "d_Get (fst (snd created)) commentDatabaseAttr = ''postgres''"
    "d_Get (fst (snd created)) commentTypeAttr = ''database''"
    "d_Get (fst (snd created)) commentNameAttr = ''my_database''"
    by (auto simp: created_def database_comment_def d_Get_declared)
qed

lemma created_store:
  "store (snd (snd created))
     = [comment_sql demo ''DATABASE'' ''my_database'' ''my database comment'']"
  unfolding created_def database_comment_def
  using demo_Update(3) [where kw = "''DATABASE''" and database = "[]" and db = db13
      and d = "declared ''postgres'' ''database'' ''my_database'' ''my database comment''"
      and w = fresh]
  by (simp add: d_Get_declared setComment_switch_simps demo_begin_ok demo_feature store_fresh)

lemma created_id: "d_Id (fst (snd created)) = ''postgres.my_database''"
  unfolding created_def database_comment_def
  using demo_Update(4) [where kw = "''DATABASE''" and database = "[]" and db = db13
      and d = "declared ''postgres'' ''database'' ''my_database'' ''my database comment''"
      and w = fresh]
  by (simp add: d_Get_declared setComment_switch_simps demo_begin_ok demo_feature
      getDatabaseForComment_demo)

lemma created_lookup:
  "fst (getComment demo db13 d ''postgres'' ''database'' ''my_database'' (snd (snd created)))
     = Inr ''my database comment''"
  using demo_query_after [where q = query_database and kw = "''DATABASE''"
      and cd = "''postgres''" and n = "''my_database''" and v = "''my database comment''"
      and log = "[]"]
  by (simp add: getComment_fst created_store demo_fields demo_begin_ok getComment_switch_simps
      query_keyword_simps)

lemma cleared_lookup:
  "fst (getComment demo db13 d ''postgres'' ''database'' ''my_database''
         (snd (snd (resourcePostgreSQLCommentDelete_rest demo db13 (fst (snd created))
                      (snd (snd created)))))) = Inr []"
proof -
  let ?d = "fst (snd created)" and ?w = "snd (snd created)"
  obtain r w1 where s: "setComment demo db13 ?d (d_Get ?d commentDatabaseAttr)
      (d_Get ?d commentTypeAttr) (d_Get ?d commentNameAttr) [] ?w = (r, w1)"
    by (cases "setComment demo db13 ?d (d_Get ?d commentDatabaseAttr)
      (d_Get ?d commentTypeAttr) (d_Get ?d commentNameAttr) [] ?w")
  have sw: "setComment_switch (d_Get ?d commentDatabaseAttr) (d_Get ?d commentTypeAttr)
              = Some (''DATABASE'', [])"
    by (simp add: created_d setComment_switch_simps)
  have b2: "\<And>s. demo_begin (client db13) (d_Get ?d commentDatabaseAttr) s = None"
    by (simp add: created_d demo_begin_ok)
  note str = demo_set_then_read [OF sw demo_begin_ok(1) b2 s]
  have "snd (snd (resourcePostgreSQLCommentDelete_rest demo db13 ?d ?w)) = w1"
    using s str(1) by (simp add: resourcePostgreSQLCommentDelete_rest_def demo_feature)
  then show ?thesis
    using str(3) [of d] by (simp add: created_d)
qed

lemma created_row:
  "demo_query ''postgres'' query_database ''my_database'' (store (snd (snd created)))
     = Inr ''my database comment''"
  using demo_query_after [where q = query_database and kw = "''DATABASE''"
      and cd = "''postgres''" and n = "''my_database''" and v = "''my database comment''"
      and log = "[]"]
  by (simp add: created_store query_keyword_simps)

section \<open>Properties\<close>

subsection \<open>Delete\<close>

text \<open>
  C3. Whatever the environment, the connection, the resource data and the world,
  \<^verbatim>\<open>resourcePostgreSQLCommentDelete\<close> returns \<^verbatim>\<open>nil\<close> and does nothing: the
  world (the server's state and the trace of driver calls) and the resource data, its
  id included, are the ones it was given. So no statement is executed, and the feature
  table is not consulted: the result is the same on a version without the feature.
  The statements after the first \<^verbatim>\<open>return\<close> are never run.
\<close>

theorem delete_is_noop:
  "resourcePostgreSQLCommentDelete E db d w = (None, d, w)"
  by (simp add: resourcePostgreSQLCommentDelete_def return_then_def)

theorem delete_is_noop_witness:
  "\<not> featureSupported demo db8 featureComment
   \<and> resourcePostgreSQLCommentDelete demo db8
        (declared ''postgres'' ''database'' ''my_database'' ''my database comment'') fresh
      = (None, declared ''postgres'' ''database'' ''my_database'' ''my database comment'', fresh)"
  using delete_is_noop [of demo db8
      "declared ''postgres'' ''database'' ''my_database'' ''my database comment''" fresh]
  by (simp add: demo_feature)

text \<open>
  C1. The specification has delete check the feature and run the clearing statement,
  so that the object has no comment afterwards. The code does not: in the example
  environment, create the comment \<^verbatim>\<open>my database comment\<close> on the database
  \<^verbatim>\<open>my_database\<close> (the create succeeds and the lookup gives the comment), then
  delete. Delete returns \<^verbatim>\<open>nil\<close> with the resource data and the world untouched,
  the lookup still gives \<^verbatim>\<open>my database comment\<close> and the id is still
  \<^verbatim>\<open>postgres.my_database\<close>. The statements after the first \<^verbatim>\<open>return\<close>, had
  they run, would have left the lookup giving the empty string.
\<close>

theorem delete_leaves_comment:
  "fst created = None
   \<and> fst (getComment demo db13 database_comment ''postgres'' ''database'' ''my_database''
            (snd (snd created))) = Inr ''my database comment''
   \<and> resourcePostgreSQLCommentDelete demo db13 (fst (snd created)) (snd (snd created))
       = (None, fst (snd created), snd (snd created))
   \<and> fst (getComment demo db13 database_comment ''postgres'' ''database'' ''my_database''
            (snd (snd (resourcePostgreSQLCommentDelete demo db13 (fst (snd created))
                         (snd (snd created)))))) = Inr ''my database comment''
   \<and> d_Id (fst (snd (resourcePostgreSQLCommentDelete demo db13 (fst (snd created))
                        (snd (snd created))))) = ''postgres.my_database''
   \<and> fst (getComment demo db13 database_comment ''postgres'' ''database'' ''my_database''
            (snd (snd (resourcePostgreSQLCommentDelete_rest demo db13 (fst (snd created))
                         (snd (snd created)))))) = Inr []"
proof -
  have c: "fst created = None"
    by (subst created_ok) simp
  have d: "resourcePostgreSQLCommentDelete demo db13 (fst (snd created)) (snd (snd created))
       = (None, fst (snd created), snd (snd created))"
    by (simp add: resourcePostgreSQLCommentDelete_def return_then_def)
  show ?thesis
    unfolding d using c created_lookup created_id cleared_lookup by simp
qed

subsection \<open>The feature check\<close>

text \<open>
  C8. On a server version without the comment feature, create, read and update each
  return the feature error carrying the version, and leave the resource data and the
  world as they were: the trace is unchanged, so no transaction was opened and no SQL
  was executed.
\<close>

theorem feature_check_first:
  assumes "\<not> featureSupported E db featureComment"
  shows "resourcePostgreSQLCommentCreate E db d w = (Some (FeatureUnsupported (version db)), d, w)
       \<and> resourcePostgreSQLCommentRead E db d w = (Some (FeatureUnsupported (version db)), d, w)
       \<and> resourcePostgreSQLCommentUpdate E db d w = (Some (FeatureUnsupported (version db)), d, w)"
  using assms
  by (simp add: resourcePostgreSQLCommentCreate_def resourcePostgreSQLCommentRead_def
      resourcePostgreSQLCommentUpdate_def)

theorem feature_check_first_witness:
  "\<not> featureSupported demo db8 featureComment
   \<and> resourcePostgreSQLCommentCreate demo db8 role_comment fresh
       = (Some (FeatureUnsupported ''8.0.0''), role_comment, fresh)
   \<and> resourcePostgreSQLCommentRead demo db8 role_comment fresh
       = (Some (FeatureUnsupported ''8.0.0''), role_comment, fresh)
   \<and> resourcePostgreSQLCommentUpdate demo db8 role_comment fresh
       = (Some (FeatureUnsupported ''8.0.0''), role_comment, fresh)"
proof -
  have v: "version db8 = ''8.0.0''"
    by (simp add: db8_def)
  show ?thesis
    using feature_check_first [OF demo_feature(2), of role_comment fresh]
    by (simp add: v demo_feature)
qed

text \<open>
  C10. \<^verbatim>\<open>resourcePostgreSQLCommentExists\<close> makes no feature check: its result and
  its effect on the world are the same whatever the feature table and the server
  version are, the error it returns, if any, is never the feature error (also not
  wrapped), and the first driver call it makes is the opening of the lookup's
  transaction on the declared database.
\<close>

theorem exists_no_feature_check:
  "resourcePostgreSQLCommentExists (E\<lparr>featureTable := t\<rparr>) (db\<lparr>version := ver\<rparr>) d w
     = resourcePostgreSQLCommentExists E db d w
   \<and> (\<forall>e. fst (resourcePostgreSQLCommentExists E db d w) = Inl e \<longrightarrow> \<not> is_FeatureUnsupported e)
   \<and> take 1 (new_events w (snd (resourcePostgreSQLCommentExists E db d w)))
       = [Begin (d_Get d commentDatabaseAttr)]"
proof -
  have 1: "resourcePostgreSQLCommentExists (E\<lparr>featureTable := t\<rparr>) (db\<lparr>version := ver\<rparr>) d w
     = resourcePostgreSQLCommentExists E db d w"
    by (simp add: resourcePostgreSQLCommentExists_def getComment_feature_free)
  have 2: "\<forall>e. fst (resourcePostgreSQLCommentExists E db d w) = Inl e \<longrightarrow> \<not> is_FeatureUnsupported e"
    by (auto simp: Exists_unfold split: sum.splits dest: exists_error_kinds)
  have 3: "take 1 (new_events w (snd (resourcePostgreSQLCommentExists E db d w)))
       = [Begin (d_Get d commentDatabaseAttr)]"
    by (simp add: Exists_unfold getComment_trace new_events_def split: option.splits)
  show ?thesis using 1 2 3 by blast
qed

theorem exists_no_feature_check_witness:
  "\<not> featureSupported demo db8 featureComment
   \<and> resourcePostgreSQLCommentExists (demo\<lparr>featureTable := \<lambda>f v. True\<rparr>)
        (db8\<lparr>version := ''13.0.0''\<rparr>)
        (declared ''postgres'' ''role'' ''demo'' ''my role comment'') fresh
      = resourcePostgreSQLCommentExists demo db8
          (declared ''postgres'' ''role'' ''demo'' ''my role comment'') fresh
   \<and> take 1 (new_events fresh (snd (resourcePostgreSQLCommentExists demo db8
          (declared ''postgres'' ''role'' ''demo'' ''my role comment'') fresh)))
      = [Begin ''postgres'']"
  using exists_no_feature_check [where E = demo and db = db8 and w = fresh
      and t = "\<lambda>f v. True" and ver = "''13.0.0''"
      and d = "declared ''postgres'' ''role'' ''demo'' ''my role comment''"]
  by (simp add: demo_feature d_Get_declared)

subsection \<open>The database of the transaction\<close>

text \<open>
  C4. For the object types \<^verbatim>\<open>database\<close> and \<^verbatim>\<open>role\<close>, \<^verbatim>\<open>setComment\<close> does
  the same whatever database it is given, its first driver call opens the transaction
  against the empty name (the default connection), and every driver call it makes is on
  that connection. For the object type \<^verbatim>\<open>table\<close>, the first driver call of
  \<^verbatim>\<open>setComment\<close> opens the transaction against the database given, and so does the
  first driver call of \<^verbatim>\<open>getComment\<close>; all their driver calls are on that database.
\<close>

theorem transaction_database:
  "(T = ''database'' \<or> T = ''role'' \<longrightarrow>
      setComment E db d cd T n v w = setComment E db d cd' T n v w
      \<and> take 1 (new_events w (snd (setComment E db d cd T n v w))) = [Begin []]
      \<and> (\<forall>e \<in> set (new_events w (snd (setComment E db d cd T n v w))). event_database e = []))
   \<and> take 1 (new_events w (snd (setComment E db d cd ''table'' n v w))) = [Begin cd]
   \<and> (\<forall>e \<in> set (new_events w (snd (setComment E db d cd ''table'' n v w))).
         event_database e = cd)
   \<and> take 1 (new_events w (snd (getComment E db d cd ''table'' n w))) = [Begin cd]
   \<and> (\<forall>e \<in> set (new_events w (snd (getComment E db d cd ''table'' n w))).
         event_database e = cd)"
  by (auto simp: setComment_def setComment_switch_def getComment_switch_def new_events_def
      setComment_run_trace getComment_trace split: option.splits sum.splits)

theorem transaction_database_witness:
  "setComment demo db13 (declared ''my_database'' ''role'' ''demo'' ''my role comment'')
       ''my_database'' ''role'' ''demo'' ''my role comment'' fresh
     = setComment demo db13 (declared ''my_database'' ''role'' ''demo'' ''my role comment'')
         ''postgres'' ''role'' ''demo'' ''my role comment'' fresh
   \<and> take 1 (new_events fresh (snd (setComment demo db13
         (declared ''my_database'' ''role'' ''demo'' ''my role comment'')
         ''my_database'' ''role'' ''demo'' ''my role comment'' fresh))) = [Begin []]
   \<and> take 1 (new_events fresh (snd (setComment demo db13
         (declared ''my_database'' ''role'' ''demo'' ''my role comment'')
         ''my_database'' ''table'' ''demo'' ''my role comment'' fresh))) = [Begin ''my_database'']
   \<and> take 1 (new_events fresh (snd (getComment demo db13
         (declared ''my_database'' ''role'' ''demo'' ''my role comment'')
         ''my_database'' ''table'' ''demo'' fresh))) = [Begin ''my_database'']"
  using transaction_database [where T = "''role''" and E = demo and db = db13
      and d = "declared ''my_database'' ''role'' ''demo'' ''my role comment''"
      and cd = "''my_database''" and cd' = "''postgres''" and n = "''demo''"
      and v = "''my role comment''" and w = fresh]
  by blast

subsection \<open>The statement\<close>

text \<open>
  C5. Once its transaction is open, the only SQL \<^verbatim>\<open>setComment\<close> sends is one
  statement, and it is exactly \<^verbatim>\<open>COMMENT ON DATABASE\<close>, \<^verbatim>\<open>COMMENT ON ROLE\<close> or
  \<^verbatim>\<open>COMMENT ON TABLE\<close> for the object types \<^verbatim>\<open>database\<close>, \<^verbatim>\<open>role\<close> and
  \<^verbatim>\<open>table\<close>, then a space, the name as \<^verbatim>\<open>pq.QuoteIdentifier\<close> quotes it,
  \<^verbatim>\<open> IS \<close> and the value as \<^verbatim>\<open>pq.QuoteLiteral\<close> quotes it.
\<close>

theorem comment_statement:
  "(srv_begin E (client db) [] (store w) = None \<longrightarrow>
      filter is_sql (new_events w (snd (setComment E db d cd ''database'' n v w)))
        = [Exec [] (''COMMENT ON DATABASE '' @ QuoteIdentifier E n @ '' IS '' @ QuoteLiteral E v)]
      \<and> filter is_sql (new_events w (snd (setComment E db d cd ''role'' n v w)))
        = [Exec [] (''COMMENT ON ROLE '' @ QuoteIdentifier E n @ '' IS '' @ QuoteLiteral E v)])
   \<and> (srv_begin E (client db) cd (store w) = None \<longrightarrow>
      filter is_sql (new_events w (snd (setComment E db d cd ''table'' n v w)))
        = [Exec cd (''COMMENT ON TABLE '' @ QuoteIdentifier E n @ '' IS '' @ QuoteLiteral E v)])"
  by (simp add: setComment_def setComment_switch_def new_events_def
      setComment_run_trace comment_sql_def split: option.splits sum.splits)

theorem comment_statement_witness:
  \<open>filter is_sql (new_events fresh (snd (setComment demo db13
      (declared ''postgres'' ''database'' ''my_database'' ''my database comment'')
      ''postgres'' ''database'' ''my_database'' ''my database comment'' fresh)))
    = [Exec [] (''COMMENT ON DATABASE "my_database" IS 'my database comment'' @ [CHR 0x27])]\<close>
  using comment_statement [where E = demo and db = db13 and w = fresh and cd = "''postgres''"
      and d = "declared ''postgres'' ''database'' ''my_database'' ''my database comment''"
      and n = "''my_database''" and v = "''my database comment''"]
  by (simp add: demo_fields demo_begin_ok pq_QuoteIdentifier_def pq_QuoteLiteral_def
      double_char_def)

subsection \<open>Unsupported object types\<close>

text \<open>
  C6, amended. For an object type other than \<^verbatim>\<open>database\<close>, \<^verbatim>\<open>role\<close> and
  \<^verbatim>\<open>table\<close>: \<^verbatim>\<open>setComment\<close> returns the unsupported-type error and leaves the
  world as it was; \<^verbatim>\<open>getComment\<close>, which opens its transaction before its switch,
  always fails, with the unsupported-type error when the transaction opens and with
  the transaction's error when it does not, and sends no statement and no query.
\<close>

theorem unsupported_object_type:
  assumes "T \<noteq> ''database''" and "T \<noteq> ''role''" and "T \<noteq> ''table''"
  shows "setComment E db d cd T n v w = (Some (UnsupportedObjectType T), w)
       \<and> fst (getComment E db d cd T n w)
           = (case srv_begin E (client db) cd (store w) of
                None \<Rightarrow> Inl (UnsupportedObjectType T)
              | Some e \<Rightarrow> Inl (Sql e))
       \<and> filter is_sql (new_events w (snd (getComment E db d cd T n w))) = []"
  using assms
  by (simp add: setComment_def setComment_switch_def getComment_switch_def new_events_def
      getComment_fst getComment_trace split: option.splits)

theorem unsupported_object_type_witness:
  "setComment demo db13 (declared ''postgres'' ''schema'' ''public'' ''my schema comment'')
       ''postgres'' ''schema'' ''public'' ''my schema comment'' fresh
     = (Some (UnsupportedObjectType ''schema''), fresh)
   \<and> fst (getComment demo db13 (declared ''postgres'' ''schema'' ''public'' ''my schema comment'')
       ''postgres'' ''schema'' ''public'' fresh) = Inl (UnsupportedObjectType ''schema'')
   \<and> fst (getComment demo db13 (declared ''missing'' ''schema'' ''public'' ''my schema comment'')
       ''missing'' ''schema'' ''public'' fresh) = Inl (Sql (ErrDriver ''database does not exist''))"
  using unsupported_object_type [where T = "''schema''" and E = demo and db = db13
      and d = "declared ''postgres'' ''schema'' ''public'' ''my schema comment''"
      and cd = "''postgres''" and n = "''public''" and v = "''my schema comment''"
      and w = fresh]
    unsupported_object_type [where T = "''schema''" and E = demo and db = db13
      and d = "declared ''missing'' ''schema'' ''public'' ''my schema comment''"
      and cd = "''missing''" and n = "''public''" and v = "''my schema comment''"
      and w = fresh]
  by (simp add: demo_fields demo_begin_ok demo_begin_missing)

text \<open>
  With the unsupported-type error promised in every case, the property fails: the
  example server has no database \<^verbatim>\<open>missing\<close>, the transaction of
  \<^verbatim>\<open>getComment\<close> does not open, and the error returned for the object type
  \<^verbatim>\<open>schema\<close> is the transaction's.
\<close>

theorem unsupported_type_closed_database_counterexample:
  "fst (getComment demo db13 (declared ''missing'' ''schema'' ''public'' ''my schema comment'')
         ''missing'' ''schema'' ''public'' fresh)
     = Inl (Sql (ErrDriver ''database does not exist''))
   \<and> fst (getComment demo db13 (declared ''missing'' ''schema'' ''public'' ''my schema comment'')
         ''missing'' ''schema'' ''public'' fresh)
     \<noteq> Inl (UnsupportedObjectType ''schema'')"
  by (simp add: getComment_fst demo_fields demo_begin_missing)

subsection \<open>Read and exists\<close>

text \<open>
  C7. For a supported object type, on a version with the feature, when the transaction
  opens and the lookup finds no row (\<^verbatim>\<open>sql.ErrNoRows\<close>): \<^verbatim>\<open>getComment\<close> returns
  the empty string and no error, \<^verbatim>\<open>resourcePostgreSQLCommentReadImpl\<close> and
  \<^verbatim>\<open>resourcePostgreSQLCommentRead\<close> return no error, and the comment they set in
  the resource data is the empty string.
\<close>

theorem read_absent_row:
  assumes "featureSupported E db featureComment"
    and "getComment_switch (d_Get d commentTypeAttr) = Some q"
    and "srv_begin E (client db) (d_Get d commentDatabaseAttr) (store w) = None"
    and "srv_query E (d_Get d commentDatabaseAttr) q (d_Get d commentNameAttr) (store w)
           = Inl ErrNoRows"
  shows "fst (getComment E db d (d_Get d commentDatabaseAttr) (d_Get d commentTypeAttr)
                (d_Get d commentNameAttr) w) = Inr []
       \<and> fst (resourcePostgreSQLCommentReadImpl E db d w) = None
       \<and> d_Get (fst (snd (resourcePostgreSQLCommentReadImpl E db d w))) commentCommentAttr = []
       \<and> fst (resourcePostgreSQLCommentRead E db d w) = None
       \<and> d_Get (fst (snd (resourcePostgreSQLCommentRead E db d w))) commentCommentAttr = []"
proof -
  have g: "fst (getComment E db d (d_Get d commentDatabaseAttr) (d_Get d commentTypeAttr)
                  (d_Get d commentNameAttr) w) = Inr []"
    using assms(2-4) by (simp add: getComment_fst)
  have r: "resourcePostgreSQLCommentRead E db d w = resourcePostgreSQLCommentReadImpl E db d w"
    using assms(1) by (simp add: resourcePostgreSQLCommentRead_def)
  show ?thesis
    unfolding r using g ReadImpl_d(1) [OF g] by (simp add: ReadImpl_result(1))
qed

theorem read_absent_row_witness:
  "fst (resourcePostgreSQLCommentRead demo db13
          (declared ''postgres'' ''role'' ''demo'' ''my role comment'') fresh) = None
   \<and> d_Get (fst (snd (resourcePostgreSQLCommentRead demo db13
          (declared ''postgres'' ''role'' ''demo'' ''my role comment'') fresh)))
        commentCommentAttr = []"
  using read_absent_row [where E = demo and db = db13 and w = fresh and q = query_role
      and d = "declared ''postgres'' ''role'' ''demo'' ''my role comment''"]
  by (simp add: demo_fields demo_begin_ok demo_feature d_Get_declared getComment_switch_simps
      demo_query_fresh query_keyword_simps store_fresh)

text \<open>
  C2, amended. For every declared resource, exists returns true only if, and exactly
  when, the lookup ran (the transaction opened and the object type has a query) and
  either a row exists whose stored description equals the declared comment, or no row
  exists and the declared comment is the empty string. The result is given in full:
  the transaction's error, the unsupported-type error, with no row no error and the
  truth of "the declared comment is empty", any other error of the lookup wrapped, and
  with a row the truth of "the stored description equals the declared comment", so
  false when they differ.
\<close>

theorem exists_compares_description:
  "fst (resourcePostgreSQLCommentExists E db d w)
     = (case srv_begin E (client db) (d_Get d commentDatabaseAttr) (store w) of
          Some e \<Rightarrow> Inl (Sql e)
        | None \<Rightarrow>
            (case getComment_switch (d_Get d commentTypeAttr) of
               None \<Rightarrow> Inl (UnsupportedObjectType (d_Get d commentTypeAttr))
             | Some q \<Rightarrow>
                 (case srv_query E (d_Get d commentDatabaseAttr) q (d_Get d commentNameAttr)
                         (store w) of
                    Inl ErrNoRows \<Rightarrow> Inr (d_Get d commentCommentAttr = [])
                  | Inl (ErrDriver m) \<Rightarrow>
                      Inl (Wrap ''Error reading extension'' (Sql (ErrDriver m)))
                  | Inr s \<Rightarrow> Inr (s = d_Get d commentCommentAttr))))
   \<and> (fst (resourcePostgreSQLCommentExists E db d w) = Inr True \<longleftrightarrow>
        srv_begin E (client db) (d_Get d commentDatabaseAttr) (store w) = None
        \<and> (\<exists>q. getComment_switch (d_Get d commentTypeAttr) = Some q
              \<and> lookup_gives (d_Get d commentCommentAttr)
                    (srv_query E (d_Get d commentDatabaseAttr) q (d_Get d commentNameAttr)
                       (store w))))"
proof -
  let ?r = "fst (resourcePostgreSQLCommentExists E db d w)"
  have full: "?r
     = (case srv_begin E (client db) (d_Get d commentDatabaseAttr) (store w) of
          Some e \<Rightarrow> Inl (Sql e)
        | None \<Rightarrow>
            (case getComment_switch (d_Get d commentTypeAttr) of
               None \<Rightarrow> Inl (UnsupportedObjectType (d_Get d commentTypeAttr))
             | Some q \<Rightarrow>
                 (case srv_query E (d_Get d commentDatabaseAttr) q (d_Get d commentNameAttr)
                         (store w) of
                    Inl ErrNoRows \<Rightarrow> Inr (d_Get d commentCommentAttr = [])
                  | Inl (ErrDriver m) \<Rightarrow>
                      Inl (Wrap ''Error reading extension'' (Sql (ErrDriver m)))
                  | Inr s \<Rightarrow> Inr (s = d_Get d commentCommentAttr))))"
    by (auto simp: Exists_unfold getComment_fst split: option.splits sum.splits sql_error.splits)
  have iff: "?r = Inr True \<longleftrightarrow>
        srv_begin E (client db) (d_Get d commentDatabaseAttr) (store w) = None
        \<and> (\<exists>q. getComment_switch (d_Get d commentTypeAttr) = Some q
              \<and> lookup_gives (d_Get d commentCommentAttr)
                    (srv_query E (d_Get d commentDatabaseAttr) q (d_Get d commentNameAttr)
                       (store w)))"
    unfolding full lookup_gives_def
    by (auto split: option.splits sum.splits sql_error.splits)
  from full iff show ?thesis by (rule conjI)
qed

theorem exists_compares_description_witness:
  "fst (resourcePostgreSQLCommentExists demo db13
          (declared ''postgres'' ''database'' ''my_database'' []) fresh) = Inr True
   \<and> fst (resourcePostgreSQLCommentExists demo db13
          (declared ''postgres'' ''database'' ''my_database'' ''my database comment'') fresh)
       = Inr False
   \<and> fst (resourcePostgreSQLCommentExists demo db13
          (declared ''postgres'' ''database'' ''my_database'' ''my database comment'')
          (snd (snd created))) = Inr True
   \<and> fst (resourcePostgreSQLCommentExists demo db13
          (declared ''postgres'' ''database'' ''my_database'' ''another comment'')
          (snd (snd created))) = Inr False
   \<and> fst (resourcePostgreSQLCommentExists demo db13
          (declared ''missing'' ''database'' ''my_database'' ''my database comment'')
          (snd (snd created))) = Inl (Sql (ErrDriver ''database does not exist''))
   \<and> fst (resourcePostgreSQLCommentExists demo db13
          (declared ''postgres'' ''schema'' ''public'' ''my schema comment'')
          (snd (snd created))) = Inl (UnsupportedObjectType ''schema'')"
  using
    exists_compares_description [where E = demo and db = db13 and w = fresh
      and d = "declared ''postgres'' ''database'' ''my_database'' []", THEN conjunct1]
    exists_compares_description [where E = demo and db = db13 and w = fresh
      and d = "declared ''postgres'' ''database'' ''my_database'' ''my database comment''",
      THEN conjunct1]
    exists_compares_description [where E = demo and db = db13 and w = "snd (snd created)"
      and d = "declared ''postgres'' ''database'' ''my_database'' ''my database comment''",
      THEN conjunct1]
    exists_compares_description [where E = demo and db = db13 and w = "snd (snd created)"
      and d = "declared ''postgres'' ''database'' ''my_database'' ''another comment''",
      THEN conjunct1]
    exists_compares_description [where E = demo and db = db13 and w = "snd (snd created)"
      and d = "declared ''missing'' ''database'' ''my_database'' ''my database comment''",
      THEN conjunct1]
    exists_compares_description [where E = demo and db = db13 and w = "snd (snd created)"
      and d = "declared ''postgres'' ''schema'' ''public'' ''my schema comment''",
      THEN conjunct1]
  by (simp add: demo_fields demo_begin_ok demo_begin_missing d_Get_declared
      getComment_switch_simps demo_query_fresh query_keyword_simps store_fresh created_row)

text \<open>
  As the specification words it (false whenever no row is found), the property fails:
  in the example environment nothing has been commented on,
  the lookup for the database \<^verbatim>\<open>my_database\<close> finds no row, and exists returns
  true for the declared empty comment.
\<close>

theorem exists_no_row_counterexample:
  "srv_query demo ''postgres'' query_database ''my_database'' (store fresh) = Inl ErrNoRows
   \<and> fst (resourcePostgreSQLCommentExists demo db13
            (declared ''postgres'' ''database'' ''my_database'' []) fresh) = Inr True"
  by (simp add: Exists_unfold getComment_fst demo_fields demo_begin_ok d_Get_declared
      getComment_switch_simps demo_query_fresh query_keyword_simps store_fresh)

subsection \<open>Update twice\<close>

text \<open>
  C9. Let the server keep the declared comment \<open>v\<close> on the declared object, let update
  succeed on the declared resource, and succeed again with the same value \<open>v\<close>. Then
  the stored comment, as \<^verbatim>\<open>getComment\<close> reads it, is \<open>v\<close> after the first update
  and still \<open>v\<close> after the second, the resource data hold \<open>v\<close>, and exists returns
  true.
\<close>

theorem update_twice:
  assumes k: "keeps_comment E (d_Get d commentDatabaseAttr) (d_Get d commentTypeAttr)
              (d_Get d commentNameAttr) (d_Get d commentCommentAttr)"
    and u1: "resourcePostgreSQLCommentUpdate E db d w = (None, d1, w1)"
    and u2: "resourcePostgreSQLCommentUpdate E db
               (d_Set d1 commentCommentAttr (d_Get d commentCommentAttr)) w1 = (None, d2, w2)"
  shows "fst (getComment E db d (d_Get d commentDatabaseAttr) (d_Get d commentTypeAttr)
                (d_Get d commentNameAttr) w1) = Inr (d_Get d commentCommentAttr)
       \<and> fst (getComment E db d (d_Get d commentDatabaseAttr) (d_Get d commentTypeAttr)
                (d_Get d commentNameAttr) w2) = Inr (d_Get d commentCommentAttr)
       \<and> d_Get d2 commentCommentAttr = d_Get d commentCommentAttr
       \<and> fst (resourcePostgreSQLCommentExists E db d2 w2) = Inr True"
proof -
  let ?cd = "d_Get d commentDatabaseAttr" and ?T = "d_Get d commentTypeAttr"
  let ?n = "d_Get d commentNameAttr" and ?v = "d_Get d commentCommentAttr"
  let ?d1 = "d_Set d1 commentCommentAttr ?v"
  note first = Update_keeps [OF u1 k]
  have same: "d_Get ?d1 commentDatabaseAttr = ?cd" "d_Get ?d1 commentTypeAttr = ?T"
    "d_Get ?d1 commentNameAttr = ?n" "d_Get ?d1 commentCommentAttr = ?v"
    using first(3-5) attr_names_distinct by (simp_all add: d_Get_d_Set)
  have k1: "keeps_comment E (d_Get ?d1 commentDatabaseAttr) (d_Get ?d1 commentTypeAttr)
              (d_Get ?d1 commentNameAttr) (d_Get ?d1 commentCommentAttr)"
    using k by (simp only: same)
  note second = Update_keeps [OF u2 k1, unfolded same]
  have e: "fst (resourcePostgreSQLCommentExists E db d2 w2) = Inr True"
    using second(1) [of d2] second(2-5) by (simp add: Exists_unfold)
  show ?thesis
    using first(1) [of d] second(1) [of d] second(2) e by simp
qed

theorem update_twice_witness:
  "fst updated_once = None \<and> fst updated_twice = None
   \<and> fst (getComment demo db13 role_comment ''postgres'' ''role'' ''demo''
            (snd (snd updated_once))) = Inr ''my role comment''
   \<and> fst (getComment demo db13 role_comment ''postgres'' ''role'' ''demo''
            (snd (snd updated_twice))) = Inr ''my role comment''
   \<and> d_Get (fst (snd updated_twice)) commentCommentAttr = ''my role comment''
   \<and> fst (resourcePostgreSQLCommentExists demo db13 (fst (snd updated_twice))
            (snd (snd updated_twice))) = Inr True"
proof -
  have g: "d_Get role_comment commentDatabaseAttr = ''postgres''"
    "d_Get role_comment commentTypeAttr = ''role''"
    "d_Get role_comment commentNameAttr = ''demo''"
    "d_Get role_comment commentCommentAttr = ''my role comment''"
    by (simp_all add: role_comment_def d_Get_declared)
  have u1: "resourcePostgreSQLCommentUpdate demo db13 role_comment fresh
              = (None, fst (snd updated_once), snd (snd updated_once))"
    using updated_once_ok unfolding updated_once_def .
  have u2: "resourcePostgreSQLCommentUpdate demo db13
              (d_Set (fst (snd updated_once)) commentCommentAttr
                 (d_Get role_comment commentCommentAttr))
              (snd (snd updated_once))
              = (None, fst (snd updated_twice), snd (snd updated_twice))"
    using updated_twice_ok unfolding updated_twice_def g .
  have o: "fst updated_once = None" "fst updated_twice = None"
    by (subst updated_once_ok, simp) (subst updated_twice_ok, simp)
  show ?thesis
    using update_twice [OF demo_keeps_comment u1 u2] o by (simp only: g simp_thms)
qed

end
